theory Spec2Isabelle
  imports Main
begin

section \<open>Package gpio: enumerations, capability interfaces, textual conversions\<close>

subsection \<open>The three enumeration types\<close>

text \<open>
  The source declares \<^verbatim>\<open>type Value int\<close>, \<^verbatim>\<open>type Direction int\<close> and
  \<^verbatim>\<open>type EdgeSensitivity int\<close>: three distinct named types over Go's \<^verbatim>\<open>int\<close>. Each is a
  datatype with one constructor carrying the underlying integer, so that the three types
  stay distinct and every integer, in range or not, is a value of each of them (the Go
  conversion \<^verbatim>\<open>Value(n)\<close> is the constructor, \<^verbatim>\<open>int(v)\<close> is the selector). Go's \<^verbatim>\<open>int\<close>
  has 32 or 64 bits; the package does no arithmetic on it, only comparisons with the
  constants 0 to 3, so the underlying integer is \<^typ>\<open>int\<close> and every statement below
  holds for both widths.
\<close>

datatype Value = Value (Value_int: int)

datatype Direction = Direction (Direction_int: int)

datatype EdgeSensitivity = EdgeSensitivity (EdgeSensitivity_int: int)

text \<open>The constant blocks of the source, in their order.\<close>

definition Low :: Value where
  "Low = Value 0"

definition High :: Value where
  "High = Value 1"

definition In :: Direction where
  "In = Direction 0"

definition Out :: Direction where
  "Out = Direction 1"

definition NoEdges :: EdgeSensitivity where
  "NoEdges = EdgeSensitivity 0"

definition RisingEdge :: EdgeSensitivity where
  "RisingEdge = EdgeSensitivity 1"

definition FallingEdge :: EdgeSensitivity where
  "FallingEdge = EdgeSensitivity 2"

definition BothEdges :: EdgeSensitivity where
  "BothEdges = EdgeSensitivity 3"

text \<open>The tags each constant block declares, as a list in declaration order.\<close>

definition Value_tags :: "Value list" where
  "Value_tags = [Low, High]"

definition Direction_tags :: "Direction list" where
  "Direction_tags = [In, Out]"

definition EdgeSensitivity_tags :: "EdgeSensitivity list" where
  "EdgeSensitivity_tags = [NoEdges, RisingEdge, FallingEdge, BothEdges]"

text \<open>
  Go initialises a variable declared without a value (\<^verbatim>\<open>var v Value\<close>) to the zero value
  of its type; for a type whose underlying type is \<^verbatim>\<open>int\<close> that is the integer 0.
\<close>

definition Value_zero :: Value where
  "Value_zero = Value 0"

definition Direction_zero :: Direction where
  "Direction_zero = Direction 0"

definition EdgeSensitivity_zero :: EdgeSensitivity where
  "EdgeSensitivity_zero = EdgeSensitivity 0"

subsection \<open>Textual conversions\<close>

text \<open>
  A \<^verbatim>\<open>String\<close> method either returns a string or panics with a message. The result is a
  sum: \<open>Inr s\<close> for \<^verbatim>\<open>return s\<close>, \<open>Inl (Panic msg)\<close> for \<^verbatim>\<open>panic(msg)\<close>. A Go \<^verbatim>\<open>switch\<close>
  tries its cases from top to bottom and takes \<^verbatim>\<open>default\<close> when none matches; the
  conditionals below keep the order of the cases in the source (for \<^verbatim>\<open>EdgeSensitivity\<close>:
  \<^verbatim>\<open>NoEdges\<close>, \<^verbatim>\<open>BothEdges\<close>, \<^verbatim>\<open>RisingEdge\<close>, \<^verbatim>\<open>FallingEdge\<close>).
\<close>

datatype panic = Panic string

definition Value_String :: "Value \<Rightarrow> panic + string" where
  "Value_String v =
     (if v = Low then Inr ''Low''
      else if v = High then Inr ''High''
      else Inl (Panic ''Cannot String Invalid Value''))"

definition Direction_String :: "Direction \<Rightarrow> panic + string" where
  "Direction_String direction =
     (if direction = In then Inr ''In''
      else if direction = Out then Inr ''Out''
      else Inl (Panic ''Cannot String Invalid Direction''))"

definition EdgeSensitivity_String :: "EdgeSensitivity \<Rightarrow> panic + string" where
  "EdgeSensitivity_String sensitivity =
     (if sensitivity = NoEdges then Inr ''NoEdges''
      else if sensitivity = BothEdges then Inr ''BothEdges''
      else if sensitivity = RisingEdge then Inr ''RisingEdge''
      else if sensitivity = FallingEdge then Inr ''FallingEdge''
      else Inl (Panic ''Cannot String Invalid EdgeSensitivity''))"

text \<open>
  The specification describes a round trip: the text of a tag is mapped back to a tag
  "from the known literal set". The source has no parser; the tables below follow the
  specification's wording and list the documented literals with the tag each one names.
  They are the specification's side of the comparison, the \<^verbatim>\<open>String\<close> methods above are
  the code's.
\<close>

definition Value_literals :: "(string \<times> Value) list" where
  "Value_literals = [(''Low'', Low), (''High'', High)]"

definition Direction_literals :: "(string \<times> Direction) list" where
  "Direction_literals = [(''In'', In), (''Out'', Out)]"

definition EdgeSensitivity_literals :: "(string \<times> EdgeSensitivity) list" where
  "EdgeSensitivity_literals =
     [(''NoEdges'', NoEdges), (''RisingEdge'', RisingEdge),
      (''FallingEdge'', FallingEdge), (''BothEdges'', BothEdges)]"

definition Value_of_literal :: "string \<Rightarrow> Value option" where
  "Value_of_literal s = map_of Value_literals s"

definition Direction_of_literal :: "string \<Rightarrow> Direction option" where
  "Direction_of_literal s = map_of Direction_literals s"

definition EdgeSensitivity_of_literal :: "string \<Rightarrow> EdgeSensitivity option" where
  "EdgeSensitivity_of_literal s = map_of EdgeSensitivity_literals s"

subsection \<open>Capability interfaces\<close>

text \<open>
  A Go interface declaration is a list of elements: a method signature, or the name of
  another interface whose elements are embedded. A signature is the method's name with
  the types of its parameters and of its results; the only types the package's signatures
  mention are the three enumerations and \<^verbatim>\<open>error\<close>.
\<close>

datatype go_type = ValueT | DirectionT | EdgeSensitivityT | errorT

datatype method_spec = Method string "go_type list" "go_type list"

datatype ielem = Meth method_spec | Embed "ielem list"

type_synonym interface = "ielem list"

definition ValueSetter :: interface where
  "ValueSetter = [Meth (Method ''SetValue'' [ValueT] [errorT])]"

definition ValueGetter :: interface where
  "ValueGetter = [Meth (Method ''Value'' [] [ValueT, errorT])]"

definition DirectionSetter :: interface where
  "DirectionSetter = [Meth (Method ''SetDirection'' [DirectionT] [errorT])]"

definition PullStopper :: interface where
  "PullStopper = [Meth (Method ''StopPulling'' [] [errorT])]"

definition UpPuller :: interface where
  "UpPuller = [Meth (Method ''PullUp'' [] [errorT])]"

definition DownPuller :: interface where
  "DownPuller = [Meth (Method ''PullDown'' [] [errorT])]"

definition Puller :: interface where
  "Puller = [Embed UpPuller, Embed DownPuller, Embed PullStopper]"

definition GpioPin :: interface where
  "GpioPin = [Embed ValueGetter, Embed ValueSetter, Embed DirectionSetter]"

definition EdgeWaiter :: interface where
  "EdgeWaiter =
     [Meth (Method ''SetSensitivity'' [EdgeSensitivityT] [errorT]),
      Meth (Method ''WaitForEdge'' [] [errorT])]"

text \<open>
  The method set of an interface: its own methods and those of every interface it embeds,
  to any depth. A type implements an interface when the type's method set includes the
  interface's (the rule of the Go language for interfaces made of methods); a concrete
  type is given here by its method set \<open>T\<close>.
\<close>

fun elem_methods :: "ielem \<Rightarrow> method_spec list" where
  "elem_methods (Meth m) = [m]"
| "elem_methods (Embed es) = concat (map elem_methods es)"

definition methods :: "interface \<Rightarrow> method_spec list" where
  "methods i = concat (map elem_methods i)"

definition method_set :: "interface \<Rightarrow> method_spec set" where
  "method_set i = set (methods i)"

definition implements :: "method_spec set \<Rightarrow> interface \<Rightarrow> bool" where
  "implements T i \<longleftrightarrow> method_set i \<subseteq> T"

section \<open>Properties\<close>

subsection \<open>Shared facts\<close>

lemmas tag_defs =
  Low_def High_def In_def Out_def
  NoEdges_def RisingEdge_def FallingEdge_def BothEdges_def

lemmas tags_defs = Value_tags_def Direction_tags_def EdgeSensitivity_tags_def

lemmas String_defs = Value_String_def Direction_String_def EdgeSensitivity_String_def

lemma Value_String_tags: "Value_String Low = Inr ''Low''" "Value_String High = Inr ''High''"
  by (simp_all add: Value_String_def tag_defs)

lemma Direction_String_tags:
  "Direction_String In = Inr ''In''" "Direction_String Out = Inr ''Out''"
  by (simp_all add: Direction_String_def tag_defs)

lemma EdgeSensitivity_String_tags:
  "EdgeSensitivity_String NoEdges = Inr ''NoEdges''"
  "EdgeSensitivity_String RisingEdge = Inr ''RisingEdge''"
  "EdgeSensitivity_String FallingEdge = Inr ''FallingEdge''"
  "EdgeSensitivity_String BothEdges = Inr ''BothEdges''"
  by (simp_all add: EdgeSensitivity_String_def tag_defs)

lemma Value_String_invalid:
  "v \<noteq> Low \<Longrightarrow> v \<noteq> High \<Longrightarrow> Value_String v = Inl (Panic ''Cannot String Invalid Value'')"
  by (simp add: Value_String_def)

lemma Direction_String_invalid:
  "d \<noteq> In \<Longrightarrow> d \<noteq> Out \<Longrightarrow>
   Direction_String d = Inl (Panic ''Cannot String Invalid Direction'')"
  by (simp add: Direction_String_def)

lemma EdgeSensitivity_String_invalid:
  "e \<noteq> NoEdges \<Longrightarrow> e \<noteq> RisingEdge \<Longrightarrow> e \<noteq> FallingEdge \<Longrightarrow> e \<noteq> BothEdges \<Longrightarrow>
   EdgeSensitivity_String e = Inl (Panic ''Cannot String Invalid EdgeSensitivity'')"
  by (simp add: EdgeSensitivity_String_def)

lemma method_set_single: "method_set [Meth m] = {m}"
  by (simp add: method_set_def methods_def)

lemma method_set_Puller:
  "method_set Puller = method_set UpPuller \<union> method_set DownPuller \<union> method_set PullStopper"
  by (auto simp add: method_set_def methods_def Puller_def)

lemma method_set_GpioPin:
  "method_set GpioPin =
     method_set ValueGetter \<union> method_set ValueSetter \<union> method_set DirectionSetter"
  by (auto simp add: method_set_def methods_def GpioPin_def)

lemma implements_Puller_iff:
  "implements T Puller \<longleftrightarrow>
     implements T UpPuller \<and> implements T DownPuller \<and> implements T PullStopper"
  by (simp add: implements_def method_set_Puller)

lemma implements_GpioPin_iff:
  "implements T GpioPin \<longleftrightarrow>
     implements T ValueGetter \<and> implements T ValueSetter \<and> implements T DirectionSetter"
  by (simp add: implements_def method_set_GpioPin)

subsection \<open>Textual conversions on the declared tags\<close>

text \<open>
  Claim C1. On every declared tag the conversion returns the documented string, letter
  for letter: \<^verbatim>\<open>Value.String\<close> gives "Low" for \<^verbatim>\<open>Low\<close> and "High" for \<^verbatim>\<open>High\<close>;
  \<^verbatim>\<open>Direction.String\<close> gives "In" for \<^verbatim>\<open>In\<close> and "Out" for \<^verbatim>\<open>Out\<close>;
  \<^verbatim>\<open>EdgeSensitivity.String\<close> gives "NoEdges", "RisingEdge", "FallingEdge" and "BothEdges"
  for the tag of the same name.
\<close>

theorem String_documented_text:
  "Value_String Low = Inr ''Low'' \<and> Value_String High = Inr ''High'' \<and>
   Direction_String In = Inr ''In'' \<and> Direction_String Out = Inr ''Out'' \<and>
   EdgeSensitivity_String NoEdges = Inr ''NoEdges'' \<and>
   EdgeSensitivity_String RisingEdge = Inr ''RisingEdge'' \<and>
   EdgeSensitivity_String FallingEdge = Inr ''FallingEdge'' \<and>
   EdgeSensitivity_String BothEdges = Inr ''BothEdges''"
  by (simp add: Value_String_tags Direction_String_tags EdgeSensitivity_String_tags)

text \<open>
  Claim C2. For every underlying integer that is not the encoding of a declared tag of
  the enumeration, the conversion panics (with the message of the \<^verbatim>\<open>default\<close> branch) and
  returns no string at all: neither an empty one nor any other.
\<close>

theorem String_panics_outside_tags:
  "(Value i \<notin> set Value_tags \<longrightarrow>
      Value_String (Value i) = Inl (Panic ''Cannot String Invalid Value'') \<and>
      (\<forall>s. Value_String (Value i) \<noteq> Inr s)) \<and>
   (Direction j \<notin> set Direction_tags \<longrightarrow>
      Direction_String (Direction j) = Inl (Panic ''Cannot String Invalid Direction'') \<and>
      (\<forall>s. Direction_String (Direction j) \<noteq> Inr s)) \<and>
   (EdgeSensitivity k \<notin> set EdgeSensitivity_tags \<longrightarrow>
      EdgeSensitivity_String (EdgeSensitivity k) =
        Inl (Panic ''Cannot String Invalid EdgeSensitivity'') \<and>
      (\<forall>s. EdgeSensitivity_String (EdgeSensitivity k) \<noteq> Inr s))"
proof (intro conjI impI)
  assume "Value i \<notin> set Value_tags"
  then have "Value_String (Value i) = Inl (Panic ''Cannot String Invalid Value'')"
    by (simp add: Value_tags_def Value_String_invalid)
  then show "Value_String (Value i) = Inl (Panic ''Cannot String Invalid Value'')"
    and "\<forall>s. Value_String (Value i) \<noteq> Inr s"
    by simp_all
next
  assume "Direction j \<notin> set Direction_tags"
  then have "Direction_String (Direction j) = Inl (Panic ''Cannot String Invalid Direction'')"
    by (simp add: Direction_tags_def Direction_String_invalid)
  then show "Direction_String (Direction j) = Inl (Panic ''Cannot String Invalid Direction'')"
    and "\<forall>s. Direction_String (Direction j) \<noteq> Inr s"
    by simp_all
next
  assume "EdgeSensitivity k \<notin> set EdgeSensitivity_tags"
  then have "EdgeSensitivity_String (EdgeSensitivity k) =
      Inl (Panic ''Cannot String Invalid EdgeSensitivity'')"
    by (simp add: EdgeSensitivity_tags_def EdgeSensitivity_String_invalid)
  then show "EdgeSensitivity_String (EdgeSensitivity k) =
      Inl (Panic ''Cannot String Invalid EdgeSensitivity'')"
    and "\<forall>s. EdgeSensitivity_String (EdgeSensitivity k) \<noteq> Inr s"
    by simp_all
qed

theorem String_panics_outside_tags_witness:
  "Value 2 \<notin> set Value_tags \<and>
   Value_String (Value 2) = Inl (Panic ''Cannot String Invalid Value'') \<and>
   Direction (- 1) \<notin> set Direction_tags \<and>
   Direction_String (Direction (- 1)) = Inl (Panic ''Cannot String Invalid Direction'') \<and>
   EdgeSensitivity 4 \<notin> set EdgeSensitivity_tags \<and>
   EdgeSensitivity_String (EdgeSensitivity 4) =
     Inl (Panic ''Cannot String Invalid EdgeSensitivity'')"
  using String_panics_outside_tags [of 2 "- 1" 4]
  by (simp add: tags_defs tag_defs)

text \<open>
  Claim C3. For every declared tag of \<^verbatim>\<open>Value\<close>, \<^verbatim>\<open>Direction\<close> and \<^verbatim>\<open>EdgeSensitivity\<close>,
  the conversion returns one of the documented strings, and looking that string up in the
  table of documented literals gives the tag back. On the declared tags of each
  enumeration the conversion is injective: no two tags share a string.
\<close>

theorem String_roundtrip:
  "(v \<in> set Value_tags \<longrightarrow>
      (\<exists>s. Value_String v = Inr s \<and> s \<in> {''Low'', ''High''} \<and> Value_of_literal s = Some v)) \<and>
   (d \<in> set Direction_tags \<longrightarrow>
      (\<exists>s. Direction_String d = Inr s \<and> s \<in> {''In'', ''Out''} \<and>
           Direction_of_literal s = Some d)) \<and>
   (e \<in> set EdgeSensitivity_tags \<longrightarrow>
      (\<exists>s. EdgeSensitivity_String e = Inr s \<and>
           s \<in> {''NoEdges'', ''RisingEdge'', ''FallingEdge'', ''BothEdges''} \<and>
           EdgeSensitivity_of_literal s = Some e)) \<and>
   inj_on Value_String (set Value_tags) \<and>
   inj_on Direction_String (set Direction_tags) \<and>
   inj_on EdgeSensitivity_String (set EdgeSensitivity_tags)"
proof (intro conjI impI)
  assume "v \<in> set Value_tags"
  then consider "v = Low" | "v = High"
    by (auto simp add: Value_tags_def)
  then show "\<exists>s. Value_String v = Inr s \<and> s \<in> {''Low'', ''High''} \<and>
      Value_of_literal s = Some v"
    by cases (simp_all add: Value_String_tags Value_of_literal_def Value_literals_def)
next
  assume "d \<in> set Direction_tags"
  then consider "d = In" | "d = Out"
    by (auto simp add: Direction_tags_def)
  then show "\<exists>s. Direction_String d = Inr s \<and> s \<in> {''In'', ''Out''} \<and>
      Direction_of_literal s = Some d"
    by cases
      (simp_all add: Direction_String_tags Direction_of_literal_def Direction_literals_def)
next
  assume "e \<in> set EdgeSensitivity_tags"
  then consider "e = NoEdges" | "e = RisingEdge" | "e = FallingEdge" | "e = BothEdges"
    by (auto simp add: EdgeSensitivity_tags_def)
  then show "\<exists>s. EdgeSensitivity_String e = Inr s \<and>
      s \<in> {''NoEdges'', ''RisingEdge'', ''FallingEdge'', ''BothEdges''} \<and>
      EdgeSensitivity_of_literal s = Some e"
    by cases
      (simp_all add: EdgeSensitivity_String_tags EdgeSensitivity_of_literal_def
        EdgeSensitivity_literals_def)
next
  show "inj_on Value_String (set Value_tags)"
    by (simp add: inj_on_def Value_tags_def Value_String_tags)
next
  show "inj_on Direction_String (set Direction_tags)"
    by (simp add: inj_on_def Direction_tags_def Direction_String_tags)
next
  show "inj_on EdgeSensitivity_String (set EdgeSensitivity_tags)"
    by (simp add: inj_on_def EdgeSensitivity_tags_def EdgeSensitivity_String_tags)
qed

theorem String_roundtrip_witness:
  "High \<in> set Value_tags \<and> Value_String High = Inr ''High'' \<and>
   Value_of_literal ''High'' = Some High \<and>
   Out \<in> set Direction_tags \<and> Direction_String Out = Inr ''Out'' \<and>
   Direction_of_literal ''Out'' = Some Out \<and>
   FallingEdge \<in> set EdgeSensitivity_tags \<and>
   EdgeSensitivity_String FallingEdge = Inr ''FallingEdge'' \<and>
   EdgeSensitivity_of_literal ''FallingEdge'' = Some FallingEdge"
proof -
  have tags: "High \<in> set Value_tags" "Out \<in> set Direction_tags"
    "FallingEdge \<in> set EdgeSensitivity_tags"
    by (simp_all add: tags_defs)
  note rt = String_roundtrip [of High Out FallingEdge]
  from rt tags(1) obtain s where
    s: "Value_String High = Inr s" "Value_of_literal s = Some High"
    by blast
  from rt tags(2) obtain t where
    t: "Direction_String Out = Inr t" "Direction_of_literal t = Some Out"
    by blast
  from rt tags(3) obtain u where
    u: "EdgeSensitivity_String FallingEdge = Inr u"
      "EdgeSensitivity_of_literal u = Some FallingEdge"
    by blast
  from s have "s = ''High''" by (simp add: Value_String_tags)
  moreover from t have "t = ''Out''" by (simp add: Direction_String_tags)
  moreover from u have "u = ''FallingEdge''" by (simp add: EdgeSensitivity_String_tags)
  ultimately show ?thesis using tags s t u by simp
qed

subsection \<open>Composite interfaces\<close>

text \<open>
  Claim C5. A type implements \<^verbatim>\<open>GpioPin\<close> exactly when it implements \<^verbatim>\<open>ValueGetter\<close>,
  \<^verbatim>\<open>ValueSetter\<close> and \<^verbatim>\<open>DirectionSetter\<close> together. The method set of \<^verbatim>\<open>GpioPin\<close> is made
  of three operations and no other: \<^verbatim>\<open>Value() (Value, error)\<close>, \<^verbatim>\<open>SetValue(Value) error\<close>
  and \<^verbatim>\<open>SetDirection(Direction) error\<close>.
\<close>

theorem GpioPin_three_capabilities:
  "(implements T GpioPin \<longleftrightarrow>
      implements T ValueGetter \<and> implements T ValueSetter \<and> implements T DirectionSetter) \<and>
   method_set GpioPin =
     {Method ''Value'' [] [ValueT, errorT],
      Method ''SetValue'' [ValueT] [errorT],
      Method ''SetDirection'' [DirectionT] [errorT]} \<and>
   card (method_set GpioPin) = 3"
proof -
  have ms: "method_set GpioPin =
     {Method ''Value'' [] [ValueT, errorT],
      Method ''SetValue'' [ValueT] [errorT],
      Method ''SetDirection'' [DirectionT] [errorT]}"
    by (auto simp add: method_set_GpioPin ValueGetter_def ValueSetter_def DirectionSetter_def
        method_set_single)
  have "card (method_set GpioPin) = 3"
    unfolding ms by simp
  with ms implements_GpioPin_iff [of T] show ?thesis
    by simp
qed

text \<open>
  A concrete pin type that also has a \<^verbatim>\<open>PullUp\<close> method: it implements \<^verbatim>\<open>GpioPin\<close> and
  each of the three component interfaces.
\<close>

theorem GpioPin_three_capabilities_witness:
  "implements
     {Method ''Value'' [] [ValueT, errorT], Method ''SetValue'' [ValueT] [errorT],
      Method ''SetDirection'' [DirectionT] [errorT], Method ''PullUp'' [] [errorT]}
     GpioPin \<and>
   implements
     {Method ''Value'' [] [ValueT, errorT], Method ''SetValue'' [ValueT] [errorT],
      Method ''SetDirection'' [DirectionT] [errorT], Method ''PullUp'' [] [errorT]}
     ValueGetter \<and>
   implements
     {Method ''Value'' [] [ValueT, errorT], Method ''SetValue'' [ValueT] [errorT],
      Method ''SetDirection'' [DirectionT] [errorT], Method ''PullUp'' [] [errorT]}
     ValueSetter \<and>
   implements
     {Method ''Value'' [] [ValueT, errorT], Method ''SetValue'' [ValueT] [errorT],
      Method ''SetDirection'' [DirectionT] [errorT], Method ''PullUp'' [] [errorT]}
     DirectionSetter"
proof -
  let ?T = "{Method ''Value'' [] [ValueT, errorT], Method ''SetValue'' [ValueT] [errorT],
      Method ''SetDirection'' [DirectionT] [errorT], Method ''PullUp'' [] [errorT]}"
  note c = GpioPin_three_capabilities [of ?T]
  from c have "implements ?T GpioPin"
    by (simp add: implements_def)
  with c show ?thesis
    by blast
qed

text \<open>
  Claim C6. A type implements \<^verbatim>\<open>Puller\<close> exactly when it implements \<^verbatim>\<open>UpPuller\<close>,
  \<^verbatim>\<open>DownPuller\<close> and \<^verbatim>\<open>PullStopper\<close> together, so it provides \<^verbatim>\<open>PullUp() error\<close>,
  \<^verbatim>\<open>PullDown() error\<close> and \<^verbatim>\<open>StopPulling() error\<close>. Each of the three component
  interfaces declares exactly one operation.
\<close>

theorem Puller_three_capabilities:
  "(implements T Puller \<longleftrightarrow>
      implements T UpPuller \<and> implements T DownPuller \<and> implements T PullStopper) \<and>
   method_set Puller =
     {Method ''PullUp'' [] [errorT], Method ''PullDown'' [] [errorT],
      Method ''StopPulling'' [] [errorT]} \<and>
   methods UpPuller = [Method ''PullUp'' [] [errorT]] \<and>
   methods DownPuller = [Method ''PullDown'' [] [errorT]] \<and>
   methods PullStopper = [Method ''StopPulling'' [] [errorT]]"
proof -
  have "method_set Puller =
     {Method ''PullUp'' [] [errorT], Method ''PullDown'' [] [errorT],
      Method ''StopPulling'' [] [errorT]}"
    by (auto simp add: method_set_Puller UpPuller_def DownPuller_def PullStopper_def
        method_set_single)
  moreover have "methods UpPuller = [Method ''PullUp'' [] [errorT]]"
    and "methods DownPuller = [Method ''PullDown'' [] [errorT]]"
    and "methods PullStopper = [Method ''StopPulling'' [] [errorT]]"
    by (simp_all add: methods_def UpPuller_def DownPuller_def PullStopper_def)
  ultimately show ?thesis
    using implements_Puller_iff [of T] by simp
qed

text \<open>
  A type with the three pull operations only: it implements \<^verbatim>\<open>Puller\<close> and each of the
  three single-operation interfaces.
\<close>

theorem Puller_three_capabilities_witness:
  "implements
     {Method ''PullUp'' [] [errorT], Method ''PullDown'' [] [errorT],
      Method ''StopPulling'' [] [errorT]} Puller \<and>
   implements
     {Method ''PullUp'' [] [errorT], Method ''PullDown'' [] [errorT],
      Method ''StopPulling'' [] [errorT]} UpPuller \<and>
   implements
     {Method ''PullUp'' [] [errorT], Method ''PullDown'' [] [errorT],
      Method ''StopPulling'' [] [errorT]} DownPuller \<and>
   implements
     {Method ''PullUp'' [] [errorT], Method ''PullDown'' [] [errorT],
      Method ''StopPulling'' [] [errorT]} PullStopper"
proof -
  let ?T = "{Method ''PullUp'' [] [errorT], Method ''PullDown'' [] [errorT],
      Method ''StopPulling'' [] [errorT]}"
  note c = Puller_three_capabilities [of ?T]
  from c have "implements ?T Puller"
    by (simp add: implements_def)
  with c show ?thesis
    by blast
qed

subsection \<open>The tag sets and their encodings\<close>

text \<open>
  Claim C7. Each enumeration is a closed set of pairwise distinct tags, compared by tag
  equality: \<^verbatim>\<open>Low\<close> and \<^verbatim>\<open>High\<close> differ, \<^verbatim>\<open>In\<close> and \<^verbatim>\<open>Out\<close> differ, and \<^verbatim>\<open>NoEdges\<close>,
  \<^verbatim>\<open>RisingEdge\<close>, \<^verbatim>\<open>FallingEdge\<close>, \<^verbatim>\<open>BothEdges\<close> are four pairwise distinct tags. Two
  values of an enumeration are equal exactly when their underlying integers are, and the
  set is closed in that the values the textual conversion accepts are the declared tags
  and nothing else.
\<close>

theorem tags_closed_and_distinct:
  "Low \<noteq> High \<and> In \<noteq> Out \<and>
   distinct [NoEdges, RisingEdge, FallingEdge, BothEdges] \<and>
   ((v = v') = (Value_int v = Value_int v')) \<and>
   ((d = d') = (Direction_int d = Direction_int d')) \<and>
   ((e = e') = (EdgeSensitivity_int e = EdgeSensitivity_int e')) \<and>
   ((\<exists>s. Value_String v = Inr s) = (v \<in> set Value_tags)) \<and>
   ((\<exists>s. Direction_String d = Inr s) = (d \<in> set Direction_tags)) \<and>
   ((\<exists>s. EdgeSensitivity_String e = Inr s) = (e \<in> set EdgeSensitivity_tags))"
proof -
  have "Low \<noteq> High" and "In \<noteq> Out"
    and "distinct [NoEdges, RisingEdge, FallingEdge, BothEdges]"
    by (simp_all add: tag_defs)
  moreover have "(v = v') = (Value_int v = Value_int v')"
    by (cases v; cases v') simp
  moreover have "(d = d') = (Direction_int d = Direction_int d')"
    by (cases d; cases d') simp
  moreover have "(e = e') = (EdgeSensitivity_int e = EdgeSensitivity_int e')"
    by (cases e; cases e') simp
  moreover have "(\<exists>s. Value_String v = Inr s) = (v \<in> set Value_tags)"
    by (simp add: Value_String_def Value_tags_def)
  moreover have "(\<exists>s. Direction_String d = Inr s) = (d \<in> set Direction_tags)"
    by (simp add: Direction_String_def Direction_tags_def)
  moreover have "(\<exists>s. EdgeSensitivity_String e = Inr s) = (e \<in> set EdgeSensitivity_tags)"
    by (auto simp add: EdgeSensitivity_String_def EdgeSensitivity_tags_def)
  ultimately show ?thesis
    by blast
qed

text \<open>
  Claim C9. The enumerations have fixed integer encodings: \<^verbatim>\<open>Low\<close> is 0 and \<^verbatim>\<open>High\<close> is 1;
  \<^verbatim>\<open>In\<close> is 0 and \<^verbatim>\<open>Out\<close> is 1; \<^verbatim>\<open>NoEdges\<close>, \<^verbatim>\<open>RisingEdge\<close>, \<^verbatim>\<open>FallingEdge\<close>, \<^verbatim>\<open>BothEdges\<close>
  are 0, 1, 2, 3. So the tags of each enumeration fill a contiguous range that starts at
  0 (0 to 1, 0 to 1, 0 to 3), and an integer is a tag of the enumeration, and is accepted
  by its textual conversion, exactly when it lies in that range.
\<close>

theorem tag_encodings:
  "Value_int Low = 0 \<and> Value_int High = 1 \<and>
   Direction_int In = 0 \<and> Direction_int Out = 1 \<and>
   EdgeSensitivity_int NoEdges = 0 \<and> EdgeSensitivity_int RisingEdge = 1 \<and>
   EdgeSensitivity_int FallingEdge = 2 \<and> EdgeSensitivity_int BothEdges = 3 \<and>
   Value_int ` set Value_tags = {0..1} \<and>
   Direction_int ` set Direction_tags = {0..1} \<and>
   EdgeSensitivity_int ` set EdgeSensitivity_tags = {0..3} \<and>
   ((Value n \<in> set Value_tags) = (0 \<le> n \<and> n \<le> 1)) \<and>
   ((Direction n \<in> set Direction_tags) = (0 \<le> n \<and> n \<le> 1)) \<and>
   ((EdgeSensitivity n \<in> set EdgeSensitivity_tags) = (0 \<le> n \<and> n \<le> 3)) \<and>
   ((\<exists>s. Value_String (Value n) = Inr s) = (0 \<le> n \<and> n \<le> 1)) \<and>
   ((\<exists>s. Direction_String (Direction n) = Inr s) = (0 \<le> n \<and> n \<le> 1)) \<and>
   ((\<exists>s. EdgeSensitivity_String (EdgeSensitivity n) = Inr s) = (0 \<le> n \<and> n \<le> 3))"
proof -
  have enc: "Value_int Low = 0" "Value_int High = 1"
    "Direction_int In = 0" "Direction_int Out = 1"
    "EdgeSensitivity_int NoEdges = 0" "EdgeSensitivity_int RisingEdge = 1"
    "EdgeSensitivity_int FallingEdge = 2" "EdgeSensitivity_int BothEdges = 3"
    by (simp_all add: tag_defs)
  have r1: "{0..1} = {0, 1::int}" and r3: "{0..3} = {0, 1, 2, 3::int}"
    by auto
  have img: "Value_int ` set Value_tags = {0..1}"
    "Direction_int ` set Direction_tags = {0..1}"
    "EdgeSensitivity_int ` set EdgeSensitivity_tags = {0..3}"
    unfolding r1 r3 by (auto simp add: tags_defs enc)
  have mem: "(Value n \<in> set Value_tags) = (0 \<le> n \<and> n \<le> 1)"
    "(Direction n \<in> set Direction_tags) = (0 \<le> n \<and> n \<le> 1)"
    "(EdgeSensitivity n \<in> set EdgeSensitivity_tags) = (0 \<le> n \<and> n \<le> 3)"
    by (auto simp add: tags_defs tag_defs)
  have acc: "(\<exists>s. Value_String (Value n) = Inr s) = (0 \<le> n \<and> n \<le> 1)"
    "(\<exists>s. Direction_String (Direction n) = Inr s) = (0 \<le> n \<and> n \<le> 1)"
    "(\<exists>s. EdgeSensitivity_String (EdgeSensitivity n) = Inr s) = (0 \<le> n \<and> n \<le> 3)"
    by (auto simp add: String_defs tag_defs)
  from enc img mem acc show ?thesis
    by blast
qed

text \<open>
  Claim C10. The zero value of each enumeration type is a declared tag: it is \<^verbatim>\<open>Low\<close> for
  \<^verbatim>\<open>Value\<close>, \<^verbatim>\<open>In\<close> for \<^verbatim>\<open>Direction\<close> and \<^verbatim>\<open>NoEdges\<close> for \<^verbatim>\<open>EdgeSensitivity\<close>. The textual
  conversion of a variable left at its zero value therefore returns a string and does not
  panic, and an \<^verbatim>\<open>EdgeSensitivity\<close> left at its zero value is \<^verbatim>\<open>NoEdges\<close>, the tag that
  disables all triggers.
\<close>

theorem zero_values_are_tags:
  "Value_zero = Low \<and> Direction_zero = In \<and> EdgeSensitivity_zero = NoEdges \<and>
   Value_String Value_zero = Inr ''Low'' \<and>
   Direction_String Direction_zero = Inr ''In'' \<and>
   EdgeSensitivity_String EdgeSensitivity_zero = Inr ''NoEdges''"
proof -
  have z: "Value_zero = Low" "Direction_zero = In" "EdgeSensitivity_zero = NoEdges"
    by (simp_all add: Value_zero_def Direction_zero_def EdgeSensitivity_zero_def tag_defs)
  then show ?thesis
    by (simp add: Value_String_tags Direction_String_tags EdgeSensitivity_String_tags)
qed

end
